theory Spec2Isabelle
  imports Complex_Main "HOL-Library.Sublist"
begin

section \<open>The unit table\<close>

text \<open>
  The module constant \<open>UNITS_CONFIG\<close> of \<open>server.py\<close>: a dict from the category
  code to its label and to the dict of its units; a unit has a display name and, except for
  the temperature units, a factor. Dicts are association lists in insertion order (all keys
  of the table are distinct), a missing \<open>'factor'\<close> entry is \<open>None\<close>. The Cyrillic
  labels and names are given as the bytes of their UTF-8 encoding. Python's floats are
  modelled as reals throughout: rounding, infinities and NaN are not part of the model.
\<close>

record unit_meta =
  unit_name :: string
  unit_factor :: "real option"

record category_meta =
  cat_label :: string
  cat_units :: "(string \<times> unit_meta) list"

definition length_units :: "(string \<times> unit_meta) list" where
  "length_units =
     [
      (''km'', \<lparr>unit_name =
            [CHR 0xD0, CHR 0x9A, CHR 0xD0, CHR 0xB8, CHR 0xD0, CHR 0xBB, CHR 0xD0,
             CHR 0xBE, CHR 0xD0, CHR 0xBC, CHR 0xD0, CHR 0xB5, CHR 0xD1, CHR 0x82,
             CHR 0xD1, CHR 0x80, CHR 0xD1, CHR 0x8B],
         unit_factor = Some 1000\<rparr>),
      (''m'', \<lparr>unit_name =
            [CHR 0xD0, CHR 0x9C, CHR 0xD0, CHR 0xB5, CHR 0xD1, CHR 0x82, CHR 0xD1,
             CHR 0x80, CHR 0xD1, CHR 0x8B],
         unit_factor = Some 1\<rparr>),
      (''cm'', \<lparr>unit_name =
            [CHR 0xD0, CHR 0xA1, CHR 0xD0, CHR 0xB0, CHR 0xD0, CHR 0xBD, CHR 0xD1,
             CHR 0x82, CHR 0xD0, CHR 0xB8, CHR 0xD0, CHR 0xBC, CHR 0xD0, CHR 0xB5,
             CHR 0xD1, CHR 0x82, CHR 0xD1, CHR 0x80, CHR 0xD1, CHR 0x8B],
         unit_factor = Some 0.01\<rparr>),
      (''mm'', \<lparr>unit_name =
            [CHR 0xD0, CHR 0x9C, CHR 0xD0, CHR 0xB8, CHR 0xD0, CHR 0xBB, CHR 0xD0,
             CHR 0xBB, CHR 0xD0, CHR 0xB8, CHR 0xD0, CHR 0xBC, CHR 0xD0, CHR 0xB5,
             CHR 0xD1, CHR 0x82, CHR 0xD1, CHR 0x80, CHR 0xD1, CHR 0x8B],
         unit_factor = Some 0.001\<rparr>),
      (''miles'', \<lparr>unit_name =
            [CHR 0xD0, CHR 0x9C, CHR 0xD0, CHR 0xB8, CHR 0xD0, CHR 0xBB, CHR 0xD0,
             CHR 0xB8],
         unit_factor = Some 1609.34\<rparr>),
      (''yards'', \<lparr>unit_name =
            [CHR 0xD0, CHR 0xAF, CHR 0xD1, CHR 0x80, CHR 0xD0, CHR 0xB4, CHR 0xD1,
             CHR 0x8B],
         unit_factor = Some 0.9144\<rparr>),
      (''feet'', \<lparr>unit_name =
            [CHR 0xD0, CHR 0xA4, CHR 0xD1, CHR 0x83, CHR 0xD1, CHR 0x82, CHR 0xD1,
             CHR 0x8B],
         unit_factor = Some 0.3048\<rparr>),
      (''inches'', \<lparr>unit_name =
            [CHR 0xD0, CHR 0x94, CHR 0xD1, CHR 0x8E, CHR 0xD0, CHR 0xB9, CHR 0xD0,
             CHR 0xBC, CHR 0xD1, CHR 0x8B],
         unit_factor = Some 0.0254\<rparr>)]"

definition weight_units :: "(string \<times> unit_meta) list" where
  "weight_units =
     [
      (''kg'', \<lparr>unit_name =
            [CHR 0xD0, CHR 0x9A, CHR 0xD0, CHR 0xB8, CHR 0xD0, CHR 0xBB, CHR 0xD0,
             CHR 0xBE, CHR 0xD0, CHR 0xB3, CHR 0xD1, CHR 0x80, CHR 0xD0, CHR 0xB0,
             CHR 0xD0, CHR 0xBC, CHR 0xD0, CHR 0xBC, CHR 0xD1, CHR 0x8B],
         unit_factor = Some 1\<rparr>),
      (''g'', \<lparr>unit_name =
            [CHR 0xD0, CHR 0x93, CHR 0xD1, CHR 0x80, CHR 0xD0, CHR 0xB0, CHR 0xD0,
             CHR 0xBC, CHR 0xD0, CHR 0xBC, CHR 0xD1, CHR 0x8B],
         unit_factor = Some 0.001\<rparr>),
      (''mg'', \<lparr>unit_name =
            [CHR 0xD0, CHR 0x9C, CHR 0xD0, CHR 0xB8, CHR 0xD0, CHR 0xBB, CHR 0xD0,
             CHR 0xBB, CHR 0xD0, CHR 0xB8, CHR 0xD0, CHR 0xB3, CHR 0xD1, CHR 0x80,
             CHR 0xD0, CHR 0xB0, CHR 0xD0, CHR 0xBC, CHR 0xD0, CHR 0xBC, CHR 0xD1,
             CHR 0x8B],
         unit_factor = Some 0.000001\<rparr>),
      (''pounds'', \<lparr>unit_name =
            [CHR 0xD0, CHR 0xA4, CHR 0xD1, CHR 0x83, CHR 0xD0, CHR 0xBD, CHR 0xD1,
             CHR 0x82, CHR 0xD1, CHR 0x8B],
         unit_factor = Some 0.453592\<rparr>),
      (''ounces'', \<lparr>unit_name =
            [CHR 0xD0, CHR 0xA3, CHR 0xD0, CHR 0xBD, CHR 0xD1, CHR 0x86, CHR 0xD0,
             CHR 0xB8, CHR 0xD0, CHR 0xB8],
         unit_factor = Some 0.0283495\<rparr>)]"

definition temperature_units :: "(string \<times> unit_meta) list" where
  "temperature_units =
     [
      (''c'', \<lparr>unit_name =
            [CHR 0xD0, CHR 0xA6, CHR 0xD0, CHR 0xB5, CHR 0xD0, CHR 0xBB, CHR 0xD1,
             CHR 0x8C, CHR 0xD1, CHR 0x81, CHR 0xD0, CHR 0xB8, CHR 0xD0, CHR 0xB9],
         unit_factor = None\<rparr>),
      (''f'', \<lparr>unit_name =
            [CHR 0xD0, CHR 0xA4, CHR 0xD0, CHR 0xB0, CHR 0xD1, CHR 0x80, CHR 0xD0,
             CHR 0xB5, CHR 0xD0, CHR 0xBD, CHR 0xD0, CHR 0xB3, CHR 0xD0, CHR 0xB5,
             CHR 0xD0, CHR 0xB9, CHR 0xD1, CHR 0x82],
         unit_factor = None\<rparr>),
      (''k'', \<lparr>unit_name =
            [CHR 0xD0, CHR 0x9A, CHR 0xD0, CHR 0xB5, CHR 0xD0, CHR 0xBB, CHR 0xD1,
             CHR 0x8C, CHR 0xD0, CHR 0xB2, CHR 0xD0, CHR 0xB8, CHR 0xD0, CHR 0xBD],
         unit_factor = None\<rparr>)]"

definition volume_units :: "(string \<times> unit_meta) list" where
  "volume_units =
     [
      (''liters'', \<lparr>unit_name =
            [CHR 0xD0, CHR 0x9B, CHR 0xD0, CHR 0xB8, CHR 0xD1, CHR 0x82, CHR 0xD1,
             CHR 0x80, CHR 0xD1, CHR 0x8B],
         unit_factor = Some 1\<rparr>),
      (''ml'', \<lparr>unit_name =
            [CHR 0xD0, CHR 0x9C, CHR 0xD0, CHR 0xB8, CHR 0xD0, CHR 0xBB, CHR 0xD0,
             CHR 0xBB, CHR 0xD0, CHR 0xB8, CHR 0xD0, CHR 0xBB, CHR 0xD0, CHR 0xB8,
             CHR 0xD1, CHR 0x82, CHR 0xD1, CHR 0x80, CHR 0xD1, CHR 0x8B],
         unit_factor = Some 0.001\<rparr>),
      (''gallons'', \<lparr>unit_name =
            [CHR 0xD0, CHR 0x93, CHR 0xD0, CHR 0xB0, CHR 0xD0, CHR 0xBB, CHR 0xD0,
             CHR 0xBB, CHR 0xD0, CHR 0xBE, CHR 0xD0, CHR 0xBD, CHR 0xD1, CHR 0x8B],
         unit_factor = Some 3.78541\<rparr>)]"

definition UNITS_CONFIG :: "(string \<times> category_meta) list" where
  "UNITS_CONFIG =
     [(''length'', \<lparr>cat_label = [CHR 0xD0, CHR 0x94, CHR 0xD0, CHR 0xBB, CHR 0xD0, CHR 0xB8, CHR 0xD0, CHR 0xBD, CHR 0xD0, CHR 0xB0],
         cat_units = length_units\<rparr>),
      (''weight'', \<lparr>cat_label = [CHR 0xD0, CHR 0x92, CHR 0xD0, CHR 0xB5, CHR 0xD1, CHR 0x81],
         cat_units = weight_units\<rparr>),
      (''temperature'', \<lparr>cat_label =
            [CHR 0xD0, CHR 0xA2, CHR 0xD0, CHR 0xB5, CHR 0xD0, CHR 0xBC, CHR 0xD0, CHR 0xBF, CHR 0xD0, CHR 0xB5,
             CHR 0xD1, CHR 0x80, CHR 0xD0, CHR 0xB0, CHR 0xD1, CHR 0x82, CHR 0xD1, CHR 0x83, CHR 0xD1, CHR 0x80, CHR 0xD0, CHR 0xB0],
         cat_units = temperature_units\<rparr>),
      (''volume'', \<lparr>cat_label = [CHR 0xD0, CHR 0x9E, CHR 0xD0, CHR 0xB1, CHR 0xD1, CHR 0x8A, CHR 0xD0, CHR 0xB5, CHR 0xD0, CHR 0xBC],
         cat_units = volume_units\<rparr>)]"

section \<open>Python values and errors\<close>

text \<open>
  The exceptions the modelled code can let escape. A function that can raise returns
  \<open>py_error + 'a\<close>, with \<open>Inl\<close> for the exception.
\<close>

datatype py_error = KeyError | ZeroDivisionError | TypeError | AttributeError | OSError

text \<open>
  The values a rendering context holds: strings, integers, floats and booleans, and
  sequences of history entries. An entry is a dict from field names to scalar values; the
  handler stores strings there. Dicts are association lists in insertion order, since the
  code iterates over \<open>items()\<close>; \<open>dict.get\<close> is \<open>map_of\<close>.
\<close>

datatype scalar = PStr string | PInt int | PFloat real | PBool bool

type_synonym item = "(string \<times> scalar) list"

datatype pyval = PScalar scalar | PList "item list"

type_synonym "context" = "(string \<times> pyval) list"

text \<open>
  Three built-ins of Python on floats whose algorithms are not part of the program: the
  string form \<open>str(x)\<close>, the parser \<open>float(s)\<close> (\<open>None\<close> where it raises
  \<open>ValueError\<close>) and the format \<open>f"{x:.4f}"\<close>. They are parameters of the model.
\<close>

record py_builtins =
  str_float :: "real \<Rightarrow> string"
  float_of_str :: "string \<Rightarrow> real option"
  format_4f :: "real \<Rightarrow> string"

text \<open>\<open>str\<close> of an integer is its decimal numeral, with a minus sign when negative.\<close>

definition digit_char :: "nat \<Rightarrow> char" where
  "digit_char d = ''0123456789'' ! d"

function str_nat :: "nat \<Rightarrow> string" where
  "str_nat n = (if n < 10 then [digit_char n] else str_nat (n div 10) @ [digit_char (n mod 10)])"
  by pat_completeness auto
termination
  by (relation "measure id") auto

declare str_nat.simps [simp del]

definition str_int :: "int \<Rightarrow> string" where
  "str_int i = (if i < 0 then CHR ''-'' # str_nat (nat (- i)) else str_nat (nat i))"

text \<open>\<open>str(val)\<close>; a boolean prints as \<open>True\<close> or \<open>False\<close>.\<close>

fun py_str :: "py_builtins \<Rightarrow> scalar \<Rightarrow> string" where
  "py_str py (PStr s) = s"
| "py_str py (PInt i) = str_int i"
| "py_str py (PFloat x) = str_float py x"
| "py_str py (PBool b) = (if b then ''True'' else ''False'')"

text \<open>
  Truth value testing, as in \<open>if not items\<close> and \<open>if context.get(var_name)\<close>: the
  empty string, zero, \<open>False\<close> and the empty list are false.
\<close>

fun truthy_scalar :: "scalar \<Rightarrow> bool" where
  "truthy_scalar (PStr s) = (s \<noteq> [])"
| "truthy_scalar (PInt i) = (i \<noteq> 0)"
| "truthy_scalar (PFloat x) = (x \<noteq> 0)"
| "truthy_scalar (PBool b) = b"

fun truthy :: "pyval \<Rightarrow> bool" where
  "truthy (PScalar s) = truthy_scalar s"
| "truthy (PList xs) = (xs \<noteq> [])"

text \<open>
  \<open>str.replace(old, new)\<close>: the text is scanned from the left and every occurrence of
  \<open>old\<close> that does not overlap an earlier one is replaced. With an empty \<open>old\<close>
  Python inserts \<open>new\<close> before every character and at the end.
\<close>

function replace_scan :: "string \<Rightarrow> string \<Rightarrow> string \<Rightarrow> string" where
  "replace_scan old new [] = []"
| "replace_scan old new (c # cs) =
     (if old \<noteq> [] \<and> prefix old (c # cs)
      then new @ replace_scan old new (drop (length old) (c # cs))
      else c # replace_scan old new cs)"
  by pat_completeness auto
termination
  by (relation "measure (\<lambda>(old, new, s). length s)") (auto simp: neq_Nil_conv)

definition py_replace :: "string \<Rightarrow> string \<Rightarrow> string \<Rightarrow> string" where
  "py_replace old new s =
     (if old = [] then new @ concat (map (\<lambda>c. c # new) s) else replace_scan old new s)"
section \<open>ConverterService\<close>

text \<open>
  \<open>ConverterService._convert_temp\<close>: the value is normalised to Celsius (any source
  unit other than \<open>f\<close> and \<open>k\<close> leaves it as it is), then mapped to the target
  unit (any target other than \<open>c\<close>, \<open>f\<close> and \<open>k\<close> returns the Celsius value).
\<close>

definition convert_temp :: "real \<Rightarrow> string \<Rightarrow> string \<Rightarrow> real" where
  "convert_temp val from_unit to_unit =
     (let celsius =
            (if from_unit = ''f'' then (val - 32) * 5 / 9
             else if from_unit = ''k'' then val - 273.15
             else val)
      in if to_unit = ''c'' then celsius
         else if to_unit = ''f'' then (celsius * 9 / 5) + 32
         else if to_unit = ''k'' then celsius + 273.15
         else celsius)"

text \<open>
  \<open>ConverterService.convert\<close> returns \<open>Optional[float]\<close>: \<open>Inr None\<close> is the
  \<open>None\<close> the source returns for an unknown category or unit. Reading \<open>'factor'\<close> from
  a unit that has none raises \<open>KeyError\<close>, dividing by a zero factor raises
  \<open>ZeroDivisionError\<close>; both are branches of the model, in the order in which the source
  evaluates them.
\<close>

definition convert :: "string \<Rightarrow> real \<Rightarrow> string \<Rightarrow> string \<Rightarrow> py_error + real option" where
  "convert category val from_unit to_unit =
     (case map_of UNITS_CONFIG category of
        None \<Rightarrow> Inr None
      | Some cfg \<Rightarrow>
          if category = ''temperature''
          then Inr (Some (convert_temp val from_unit to_unit))
          else
            (case map_of (cat_units cfg) from_unit of
               None \<Rightarrow> Inr None
             | Some uf \<Rightarrow>
                 (case map_of (cat_units cfg) to_unit of
                    None \<Rightarrow> Inr None
                  | Some ut \<Rightarrow>
                      (case unit_factor uf of
                         None \<Rightarrow> Inl KeyError
                       | Some ff \<Rightarrow>
                           (case unit_factor ut of
                              None \<Rightarrow> Inl KeyError
                            | Some tf \<Rightarrow>
                                if tf = 0 then Inl ZeroDivisionError
                                else Inr (Some (val * ff / tf)))))))"

text \<open>The lookups of the table that the specification names.\<close>

definition units_of :: "string \<Rightarrow> (string \<times> unit_meta) list option" where
  "units_of category = map_option cat_units (map_of UNITS_CONFIG category)"

definition factor_of :: "string \<Rightarrow> string \<Rightarrow> real option" where
  "factor_of category u =
     (case units_of category of
        None \<Rightarrow> None
      | Some us \<Rightarrow> (case map_of us u of None \<Rightarrow> None | Some m \<Rightarrow> unit_factor m))"

text \<open>
  The two halves of the temperature formula in the words of the specification: the
  Celsius pivot \<open>c(v, f)\<close> and the target mapping \<open>g(cel, t)\<close>.
\<close>

definition spec_to_celsius :: "real \<Rightarrow> string \<Rightarrow> real" where
  "spec_to_celsius v f =
     (if f = ''c'' then v
      else if f = ''f'' then (v - 32) * 5 / 9
      else if f = ''k'' then v - 273.15
      else v)"

definition spec_from_celsius :: "real \<Rightarrow> string \<Rightarrow> real" where
  "spec_from_celsius cel t =
     (if t = ''c'' then cel
      else if t = ''f'' then cel * 9 / 5 + 32
      else if t = ''k'' then cel + 273.15
      else cel)"


section \<open>TemplateEngine\<close>

text \<open>
  The class \<open>\w\<close> of the two patterns, on ASCII text: letters, digits and the underscore.
\<close>

definition is_word_char :: "char \<Rightarrow> bool" where
  "is_word_char c =
     (let n = (of_char c :: nat)
      in (48 \<le> n \<and> n \<le> 57) \<or> (65 \<le> n \<and> n \<le> 90) \<or> n = 95 \<or> (97 \<le> n \<and> n \<le> 122))"

text \<open>
  A lazy group followed by a literal, \<open>(.*?)lit\<close> under \<open>re.DOTALL\<close>: the group
  captures the text up to the first occurrence of the literal, and the match goes on after
  it. The result is the captured text and the text after the literal, \<open>None\<close> when the
  literal does not occur.
\<close>

fun lazy_until :: "string \<Rightarrow> string \<Rightarrow> (string \<times> string) option" where
  "lazy_until lit [] = (if lit = [] then Some ([], []) else None)"
| "lazy_until lit (c # cs) =
     (if prefix lit (c # cs) then Some ([], drop (length lit) (c # cs))
      else (case lazy_until lit cs of
              None \<Rightarrow> None
            | Some (captured, rest) \<Rightarrow> Some (c # captured, rest)))"

text \<open>
  A match of \<open>loop_pattern\<close> at the start of \<open>s\<close>: the opening literal, a greedy
  non-empty run of word characters (group 1) that must be followed by \<open>" %}"\<close>, the loop
  body up to the first \<open>{% else %}\<close> (group 2) and the else-body up to the first
  \<open>{% endfor %}\<close> after it (group 3). The fourth component is the text after the match.
  A shorter run of word characters is followed by a word character, not by a space, and a
  later \<open>{% else %}\<close> has no more \<open>{% endfor %}\<close> after it than the first one has, so
  backtracking finds no other match.
\<close>

definition match_loop :: "string \<Rightarrow> (string \<times> string \<times> string \<times> string) option" where
  "match_loop s =
     (if prefix ''{% for item in '' s
      then
        (let s1 = drop (length ''{% for item in '') s;
             list_name = takeWhile is_word_char s1;
             s2 = dropWhile is_word_char s1
         in if list_name \<noteq> [] \<and> prefix '' %}'' s2
            then
              (case lazy_until ''{% else %}'' (drop (length '' %}'') s2) of
                 None \<Rightarrow> None
               | Some (loop_body, s3) \<Rightarrow>
                   (case lazy_until ''{% endfor %}'' s3 of
                      None \<Rightarrow> None
                    | Some (else_body, rest) \<Rightarrow> Some (list_name, loop_body, else_body, rest)))
            else None)
      else None)"

text \<open>The f-strings \<open>f'{{{{ {key} }}}}'\<close> and \<open>f'{{{{ item.{key} }}}}'\<close>.\<close>

definition var_marker :: "string \<Rightarrow> string" where
  "var_marker key = ''{{ '' @ key @ '' }}''"

definition item_marker :: "string \<Rightarrow> string" where
  "item_marker key = ''{{ item.'' @ key @ '' }}''"

text \<open>
  The inner loop of \<open>loop_replacer\<close>: starting from the loop body, the marker of each
  field of the item is replaced by the string form of its value, one field after the other
  in the order of the dict.
\<close>

definition render_item :: "py_builtins \<Rightarrow> string \<Rightarrow> item \<Rightarrow> string" where
  "render_item py loop_body item =
     foldl (\<lambda>temp (key, val). py_replace (item_marker key) (py_str py val) temp) loop_body item"

text \<open>
  \<open>loop_replacer\<close>: a missing key defaults to the empty list, and a false value gives
  the else-body. Otherwise the items are rendered in their stored order and each rendering
  is put in front of the result so far. A non-empty string is iterated character by
  character and a character has no \<open>items()\<close>: \<open>AttributeError\<close>; a number or
  \<open>True\<close> is not iterable: \<open>TypeError\<close>.
\<close>

definition loop_replacer ::
  "py_builtins \<Rightarrow> context \<Rightarrow> string \<Rightarrow> string \<Rightarrow> string \<Rightarrow> py_error + string" where
  "loop_replacer py ctx list_name loop_body else_body =
     (case map_of ctx list_name of
        None \<Rightarrow> Inr else_body
      | Some items \<Rightarrow>
          if \<not> truthy items then Inr else_body
          else
            (case items of
               PList xs \<Rightarrow>
                 Inr (foldl (\<lambda>result_html item. render_item py loop_body item @ result_html) [] xs)
             | PScalar (PStr s) \<Rightarrow> Inl AttributeError
             | PScalar _ \<Rightarrow> Inl TypeError))"

text \<open>
  \<open>loop_pattern.sub(loop_replacer, content)\<close>: the text is scanned from the left; where
  the pattern matches, the match is replaced by the result of \<open>loop_replacer\<close> and the
  scan goes on after the match, elsewhere the character is copied. An exception of the
  replacer ends the substitution. The scan terminates because the text after a match is
  shorter than the text the match started in.
\<close>

lemma lazy_until_split:
  "lazy_until lit s = Some (captured, rest) \<Longrightarrow> s = captured @ lit @ rest"
proof (induction s arbitrary: captured)
  case Nil
  then show ?case by (simp split: if_splits)
next
  case (Cons c cs)
  show ?case
  proof (cases "prefix lit (c # cs)")
    case True
    with Cons.prems show ?thesis
      by (auto simp: prefix_def)
  next
    case False
    with Cons.prems obtain cap where "lazy_until lit cs = Some (cap, rest)" "captured = c # cap"
      by (auto split: option.splits)
    with Cons.IH [of cap] show ?thesis by simp
  qed
qed

lemma match_loop_split:
  assumes "match_loop s = Some (list_name, loop_body, else_body, rest)"
  shows "s = ''{% for item in '' @ list_name @ '' %}'' @ loop_body @ ''{% else %}''
               @ else_body @ ''{% endfor %}'' @ rest"
proof -
  let ?s1 = "drop (length ''{% for item in '') s"
  let ?s2 = "dropWhile is_word_char ?s1"
  from assms have p: "prefix ''{% for item in '' s"
    by (simp add: match_loop_def split: if_splits)
  from assms p have n: "list_name = takeWhile is_word_char ?s1" and q: "prefix '' %}'' ?s2"
    by (auto simp: match_loop_def Let_def split: if_splits option.splits)
  from assms p q obtain s3 where
    b: "lazy_until ''{% else %}'' (drop (length '' %}'') ?s2) = Some (loop_body, s3)"
    and e: "lazy_until ''{% endfor %}'' s3 = Some (else_body, rest)"
    by (auto simp: match_loop_def Let_def split: if_splits option.splits)
  from p have "s = ''{% for item in '' @ ?s1"
    by (metis append_take_drop_id prefix_def append_eq_conv_conj)
  moreover have "?s1 = list_name @ ?s2"
    using n by simp
  moreover from q have "?s2 = '' %}'' @ drop (length '' %}'') ?s2"
    by (metis append_take_drop_id prefix_def append_eq_conv_conj)
  moreover note lazy_until_split [OF b] lazy_until_split [OF e]
  ultimately show ?thesis
    by (metis append.assoc)
qed

lemma match_loop_shorter:
  assumes "match_loop s = Some (list_name, loop_body, else_body, rest)"
  shows "length rest < length s"
proof -
  have "length s = length (''{% for item in '' @ list_name @ '' %}'' @ loop_body @ ''{% else %}''
               @ else_body @ ''{% endfor %}'' @ rest)"
    using match_loop_split [OF assms] by simp
  then show ?thesis by simp
qed

function loop_sub :: "py_builtins \<Rightarrow> context \<Rightarrow> string \<Rightarrow> py_error + string" where
  "loop_sub py ctx [] = Inr []"
| "loop_sub py ctx (c # cs) =
     (case match_loop (c # cs) of
        None \<Rightarrow> (case loop_sub py ctx cs of Inl e \<Rightarrow> Inl e | Inr out \<Rightarrow> Inr (c # out))
      | Some (list_name, loop_body, else_body, rest) \<Rightarrow>
          (case loop_replacer py ctx list_name loop_body else_body of
             Inl e \<Rightarrow> Inl e
           | Inr html \<Rightarrow>
               (case loop_sub py ctx rest of Inl e \<Rightarrow> Inl e | Inr out \<Rightarrow> Inr (html @ out))))"
  by pat_completeness auto
termination
  by (relation "measure (\<lambda>(py, ctx, s). length s)") (auto dest: match_loop_shorter)

text \<open>
  A match of \<open>if_pattern\<close> at the start of \<open>s\<close> (variable name, inner content, text
  after the match), \<open>if_replacer\<close> and \<open>if_pattern.sub(if_replacer, content)\<close>.
  \<open>context.get(var_name)\<close> is \<open>None\<close> for a missing key, which is false.
\<close>

definition match_if :: "string \<Rightarrow> (string \<times> string \<times> string) option" where
  "match_if s =
     (if prefix ''{% if '' s
      then
        (let s1 = drop (length ''{% if '') s;
             var_name = takeWhile is_word_char s1;
             s2 = dropWhile is_word_char s1
         in if var_name \<noteq> [] \<and> prefix '' %}'' s2
            then
              (case lazy_until ''{% endif %}'' (drop (length '' %}'') s2) of
                 None \<Rightarrow> None
               | Some (inner_content, rest) \<Rightarrow> Some (var_name, inner_content, rest))
            else None)
      else None)"

definition if_replacer :: "context \<Rightarrow> string \<Rightarrow> string \<Rightarrow> string" where
  "if_replacer ctx var_name inner_content =
     (case map_of ctx var_name of
        None \<Rightarrow> []
      | Some v \<Rightarrow> if truthy v then inner_content else [])"

lemma match_if_shorter:
  assumes "match_if s = Some (var_name, inner_content, rest)"
  shows "length rest < length s"
proof -
  let ?s1 = "drop (length ''{% if '') s"
  let ?s2 = "dropWhile is_word_char ?s1"
  from assms obtain
    b: "lazy_until ''{% endif %}'' (drop (length '' %}'') ?s2) = Some (inner_content, rest)"
    by (auto simp: match_if_def Let_def split: if_splits option.splits)
  from lazy_until_split [OF b]
  have "length rest \<le> length (drop (length '' %}'') ?s2)" by simp
  also have "\<dots> \<le> length ?s2" by simp
  also have "\<dots> \<le> length ?s1" by (rule length_dropWhile_le)
  finally have "length rest \<le> length ?s1" .
  moreover from assms have "prefix ''{% if '' s"
    by (simp add: match_if_def split: if_splits)
  then have "length ''{% if '' \<le> length s" by (rule prefix_length_le)
  ultimately show ?thesis by simp
qed

function if_sub :: "context \<Rightarrow> string \<Rightarrow> string" where
  "if_sub ctx [] = []"
| "if_sub ctx (c # cs) =
     (case match_if (c # cs) of
        None \<Rightarrow> c # if_sub ctx cs
      | Some (var_name, inner_content, rest) \<Rightarrow>
          if_replacer ctx var_name inner_content @ if_sub ctx rest)"
  by pat_completeness auto
termination
  by (relation "measure (\<lambda>(ctx, s). length s)") (auto dest: match_if_shorter)

text \<open>
  \<open>isinstance(value, (str, int, float))\<close> on the scalar values. In Python \<open>bool\<close> is
  a subclass of \<open>int\<close>, so the test holds for \<open>True\<close> and \<open>False\<close> as well; it
  fails for a list.
\<close>

fun isinstance_str_int_float :: "scalar \<Rightarrow> bool" where
  "isinstance_str_int_float (PStr s) = True"
| "isinstance_str_int_float (PInt i) = True"
| "isinstance_str_int_float (PFloat x) = True"
| "isinstance_str_int_float (PBool b) = True"

text \<open>
  The third stage: for each key of the context in insertion order, if the value passes the
  \<open>isinstance\<close> test then every occurrence of the key's marker in the text so far is
  replaced by the value's string form.
\<close>

definition substitute_vars :: "py_builtins \<Rightarrow> context \<Rightarrow> string \<Rightarrow> string" where
  "substitute_vars py ctx content =
     foldl (\<lambda>content (key, val).
              case val of
                PScalar v \<Rightarrow>
                  if isinstance_str_int_float v
                  then py_replace (var_marker key) (py_str py v) content
                  else content
              | PList xs \<Rightarrow> content)
       content ctx"

text \<open>
  The template file as \<open>render\<close> finds it: no file at the path, a path that exists but
  cannot be opened and read as text (a directory, a file without read permission), or a
  file with its contents. \<open>render\<close> tests \<open>exists()\<close> only; \<open>open\<close> on an
  existing path that cannot be read raises an \<open>OSError\<close>.
\<close>

datatype template_file = Missing | Unreadable | Readable string

definition render :: "py_builtins \<Rightarrow> template_file \<Rightarrow> context \<Rightarrow> py_error + string" where
  "render py file ctx =
     (case file of
        Missing \<Rightarrow> Inr ''<h1>Error: Template file not found.</h1>''
      | Unreadable \<Rightarrow> Inl OSError
      | Readable content \<Rightarrow>
          (case loop_sub py ctx content of
             Inl e \<Rightarrow> Inl e
           | Inr content1 \<Rightarrow> Inr (substitute_vars py ctx (if_sub ctx content1))))"

section \<open>RequestHandler\<close>

text \<open>
  \<open>str.rstrip(c)\<close> for a single character and \<open>sep.join(xs)\<close>.
\<close>

definition rstrip :: "char \<Rightarrow> string \<Rightarrow> string" where
  "rstrip c s = rev (dropWhile (\<lambda>x. x = c) (rev s))"

fun join :: "string \<Rightarrow> string list \<Rightarrow> string" where
  "join sep [] = []"
| "join sep [x] = x"
| "join sep (x # y # ys) = x @ sep @ join sep (y # ys)"

text \<open>
  \<open>_get_options_html\<close>: one \<open>option\<close> tag for each unit of the category, in the
  order of the table, joined by newlines; the double quote is \<open>CHR 0x22\<close>.
\<close>

definition get_options_html :: "string \<Rightarrow> string \<Rightarrow> string" where
  "get_options_html category selected =
     (case map_of UNITS_CONFIG category of
        None \<Rightarrow> []
      | Some cfg \<Rightarrow>
          join [CHR 0x0A]
            (map (\<lambda>(code, data).
                    ''<option value='' @ [CHR 0x22] @ code @ [CHR 0x22] @ '' ''
                      @ (if code = selected then ''selected'' else [])
                      @ ''>'' @ unit_name data @ ''</option>'')
               (cat_units cfg)))"

text \<open>
  The parsed form of a POST request maps a field name to its first value;
  \<open>data.get(key, [dflt])[0]\<close> is \<open>form_get data key dflt\<close>. Reading and decoding
  the request body is outside the model.
\<close>

definition form_get :: "(string \<times> string) list \<Rightarrow> string \<Rightarrow> string \<Rightarrow> string" where
  "form_get data key dflt = (case map_of data key of None \<Rightarrow> dflt | Some v \<Rightarrow> v)"

text \<open>
  The context \<open>do_POST\<close> passes to the template engine, with its keys in insertion
  order. The entry \<open>'history'\<close> is the handler's history list itself, so the template sees
  the list as it is after the request has updated it.
\<close>

definition post_context ::
  "string \<Rightarrow> string \<Rightarrow> item list \<Rightarrow> string \<Rightarrow> string \<Rightarrow> string \<Rightarrow> string \<Rightarrow> context" where
  "post_context category amount_str request_history result explanation unit_from unit_to =
     [(''current_cat'', PScalar (PStr category)),
      (''amount'', PScalar (PStr amount_str)),
      (''history'', PList request_history),
      (''result'', PScalar (PStr result)),
      (''explanation'', PScalar (PStr explanation)),
      (''unit_from_options'', PScalar (PStr (get_options_html category unit_from))),
      (''unit_to_options'', PScalar (PStr (get_options_html category unit_to)))]"

text \<open>
  \<open>UNITS_CONFIG[category]['units'][u]['name']\<close>: a missing category or unit raises
  \<open>KeyError\<close>.
\<close>

definition unit_display_name :: "string \<Rightarrow> string \<Rightarrow> py_error + string" where
  "unit_display_name category u =
     (case map_of UNITS_CONFIG category of
        None \<Rightarrow> Inl KeyError
      | Some cfg \<Rightarrow>
          (case map_of (cat_units cfg) u of
             None \<Rightarrow> Inl KeyError
           | Some data \<Rightarrow> Inr (unit_name data)))"

text \<open>
  \<open>do_POST\<close>, from the parsed form on. The class attribute \<open>request_history\<close> is the
  state: the function takes it and returns it updated, together with the page sent, or the
  exception that escapes the handler. \<open>float(amount_str)\<close> raising \<open>ValueError\<close> is
  caught and skips the conversion; no other exception is caught. A successful conversion
  appends its entry and then removes the first entry if more than five are held.
\<close>

definition do_POST ::
  "py_builtins \<Rightarrow> template_file \<Rightarrow> (string \<times> string) list \<Rightarrow> item list
     \<Rightarrow> item list \<times> (py_error + string)" where
  "do_POST py file data request_history =
     (let category = form_get data ''category'' ''length'';
          amount_str = form_get data ''amount'' ''0'';
          unit_from = form_get data ''unit_from'' [];
          unit_to = form_get data ''unit_to'' [];
          action = form_get data ''action'' ''convert''
      in
        if action = ''swap''
        then (request_history,
              render py file
                (post_context category amount_str request_history [] [] unit_to unit_from))
        else if action = ''convert''
        then
          (case float_of_str py amount_str of
             None \<Rightarrow>
               (request_history,
                render py file
                  (post_context category amount_str request_history [] [] unit_from unit_to))
           | Some val \<Rightarrow>
               (case convert category val unit_from unit_to of
                  Inl e \<Rightarrow> (request_history, Inl e)
                | Inr None \<Rightarrow>
                    (request_history,
                     render py file
                       (post_context category amount_str request_history [] [] unit_from unit_to))
                | Inr (Some res) \<Rightarrow>
                    (let res_formatted = rstrip CHR ''.'' (rstrip CHR ''0'' (format_4f py res))
                     in case unit_display_name category unit_from of
                          Inl e \<Rightarrow> (request_history, Inl e)
                        | Inr u_from_name \<Rightarrow>
                            (case unit_display_name category unit_to of
                               Inl e \<Rightarrow> (request_history, Inl e)
                             | Inr u_to_name \<Rightarrow>
                                 (let explanation =
                                        amount_str @ '' '' @ u_from_name @ '' = '' @ res_formatted
                                          @ '' '' @ u_to_name;
                                      appended =
                                        request_history @
                                          [[(''from_val'', PStr (amount_str @ '' '' @ u_from_name)),
                                            (''to_val'', PStr (res_formatted @ '' '' @ u_to_name))]];
                                      history' =
                                        (if length appended > 5 then tl appended else appended)
                                  in (history',
                                      render py file
                                        (post_context category amount_str history' res_formatted
                                           explanation unit_from unit_to)))))))
        else (request_history,
              render py file
                (post_context category amount_str request_history [] [] unit_from unit_to)))"


section \<open>Notions used to state the properties\<close>



text \<open>A rendered fragment put in front of the result of the rest of the scan.\<close>

definition prepend :: "string \<Rightarrow> py_error + string \<Rightarrow> py_error + string" where
  "prepend html r = (case r of Inl e \<Rightarrow> Inl e | Inr out \<Rightarrow> Inr (html @ out))"


text \<open>
  One instance of the three float built-ins, fixed on the few arguments the examples use,
  to run the model on concrete inputs. Every theorem below holds for all instances.
\<close>

definition sample_builtins :: py_builtins where
  "sample_builtins =
     \<lparr>str_float = (\<lambda>x. if x = 1000 then ''1000.0'' else ''0.0''),
      float_of_str = (\<lambda>s. if s = ''1'' then Some 1 else None),
      format_4f = (\<lambda>x. if x = 1000 then ''1000.0000'' else ''0.0000'')\<rparr>"


text \<open>
  A request names an unknown category, or a category other than temperature together with
  a unit code that the category does not have.
\<close>

definition unknown_request :: "string \<Rightarrow> string \<Rightarrow> string \<Rightarrow> bool" where
  "unknown_request category unit_from unit_to =
     (case units_of category of
        None \<Rightarrow> True
      | Some us \<Rightarrow>
          category \<noteq> ''temperature''
          \<and> (map_of us unit_from = None \<or> map_of us unit_to = None))"

text \<open>
  A name without a brace and without a space. Keys and field names made of word
  characters are such names, and so is a field name behind the prefix \<open>item.\<close>.
\<close>

definition plain_name :: "string \<Rightarrow> bool" where
  "plain_name a = (\<forall>c\<in>set a. c \<noteq> CHR ''{'' \<and> c \<noteq> CHR '' '')"

section \<open>Properties of the conversion engine\<close>

lemma units_of_simps:
  "units_of ''length'' = Some length_units"
  "units_of ''weight'' = Some weight_units"
  "units_of ''volume'' = Some volume_units"
  "units_of ''temperature'' = Some temperature_units"
  by (simp_all add: units_of_def UNITS_CONFIG_def)

lemma units_of_cases:
  assumes "units_of category = Some us" and "category \<noteq> ''temperature''"
  shows "us = length_units \<or> us = weight_units \<or> us = volume_units"
  using assms by (auto simp: units_of_def UNITS_CONFIG_def split: if_splits)

lemma linear_factors_positive:
  assumes "us = length_units \<or> us = weight_units \<or> us = volume_units"
    and "map_of us u = Some m"
  shows "\<exists>x. unit_factor m = Some x \<and> 0 < x"
proof -
  have "case unit_factor m of None \<Rightarrow> False | Some x \<Rightarrow> 0 < x"
    using assms
    by (auto simp: length_units_def weight_units_def volume_units_def split: if_splits)
  then show ?thesis
    by (cases "unit_factor m") simp_all
qed

lemma convert_unfold:
  "convert category val from_unit to_unit =
     (case units_of category of
        None \<Rightarrow> Inr None
      | Some us \<Rightarrow>
          if category = ''temperature''
          then Inr (Some (convert_temp val from_unit to_unit))
          else
            (case map_of us from_unit of
               None \<Rightarrow> Inr None
             | Some uf \<Rightarrow>
                 (case map_of us to_unit of
                    None \<Rightarrow> Inr None
                  | Some ut \<Rightarrow>
                      (case unit_factor uf of
                         None \<Rightarrow> Inl KeyError
                       | Some ff \<Rightarrow>
                           (case unit_factor ut of
                              None \<Rightarrow> Inl KeyError
                            | Some tf \<Rightarrow>
                                if tf = 0 then Inl ZeroDivisionError
                                else Inr (Some (val * ff / tf)))))))"
  by (simp add: convert_def units_of_def split: option.splits)

lemma convert_linear_known:
  assumes us: "units_of category = Some us" and nt: "category \<noteq> ''temperature''"
    and f: "map_of us from_unit = Some uf" and t: "map_of us to_unit = Some ut"
  shows "\<exists>ff tf. unit_factor uf = Some ff \<and> unit_factor ut = Some tf \<and> 0 < ff \<and> 0 < tf
           \<and> convert category val from_unit to_unit = Inr (Some (val * ff / tf))"
proof -
  from units_of_cases [OF us nt] linear_factors_positive f
  obtain ff where ff: "unit_factor uf = Some ff" "0 < ff" by blast
  from units_of_cases [OF us nt] linear_factors_positive t
  obtain tf where tf: "unit_factor ut = Some tf" "0 < tf" by blast
  from us nt f t ff tf show ?thesis
    by (simp add: convert_unfold)
qed

text \<open>
  C3: for every value and every pair of unit codes, a temperature conversion never returns
  the not-found signal and is the composition of the Celsius pivot with the target mapping
  as the specification words them, unknown codes falling back to Celsius on both sides;
  0 C is 32 F, 32 F is 0 C and 0 C is 273.15 K.
\<close>

theorem convert_temperature_formula:
  "convert ''temperature'' v f t = Inr (Some (spec_from_celsius (spec_to_celsius v f) t))
   \<and> convert ''temperature'' v f t \<noteq> Inr None
   \<and> convert ''temperature'' 0 ''c'' ''f'' = Inr (Some 32)
   \<and> convert ''temperature'' 32 ''f'' ''c'' = Inr (Some 0)
   \<and> convert ''temperature'' 0 ''c'' ''k'' = Inr (Some 273.15)"
  by (simp add: convert_unfold units_of_simps convert_temp_def spec_to_celsius_def
      spec_from_celsius_def)

text \<open>
  C4: an unknown category gives the not-found signal; in a known category other than
  temperature the result is the not-found signal exactly when one of the two unit codes is
  missing from the category's units, and otherwise it is the value times the source
  factor divided by the target factor; one kilometre is 1000 metres.
\<close>

theorem convert_linear:
  "(units_of category = None \<longrightarrow> convert category v from_unit to_unit = Inr None)
   \<and> (\<forall>us. units_of category = Some us \<and> category \<noteq> ''temperature'' \<longrightarrow>
         (convert category v from_unit to_unit = Inr None
            \<longleftrightarrow> map_of us from_unit = None \<or> map_of us to_unit = None)
         \<and> (map_of us from_unit \<noteq> None \<and> map_of us to_unit \<noteq> None \<longrightarrow>
              (\<exists>ff tf. factor_of category from_unit = Some ff
                 \<and> factor_of category to_unit = Some tf
                 \<and> convert category v from_unit to_unit = Inr (Some (v * ff / tf)))))
   \<and> convert ''length'' 1 ''km'' ''m'' = Inr (Some 1000)"
proof (intro conjI allI impI)
  assume "units_of category = None"
  then show "convert category v from_unit to_unit = Inr None"
    by (simp add: convert_unfold)
next
  fix us
  assume a: "units_of category = Some us \<and> category \<noteq> ''temperature''"
  show "convert category v from_unit to_unit = Inr None
          \<longleftrightarrow> map_of us from_unit = None \<or> map_of us to_unit = None"
  proof (cases "map_of us from_unit = None \<or> map_of us to_unit = None")
    case True
    with a show ?thesis
      by (auto simp: convert_unfold split: option.splits)
  next
    case False
    then obtain uf ut where "map_of us from_unit = Some uf" "map_of us to_unit = Some ut"
      by auto
    with a convert_linear_known [of category us from_unit uf to_unit ut v] False
    show ?thesis by auto
  qed
next
  fix us
  assume a: "units_of category = Some us \<and> category \<noteq> ''temperature''"
    and b: "map_of us from_unit \<noteq> None \<and> map_of us to_unit \<noteq> None"
  then obtain uf ut where k: "map_of us from_unit = Some uf" "map_of us to_unit = Some ut"
    by auto
  with a convert_linear_known [of category us from_unit uf to_unit ut v]
  show "\<exists>ff tf. factor_of category from_unit = Some ff
           \<and> factor_of category to_unit = Some tf
           \<and> convert category v from_unit to_unit = Inr (Some (v * ff / tf))"
    by (auto simp: factor_of_def)
next
  show "convert ''length'' 1 ''km'' ''m'' = Inr (Some 1000)"
    by (simp add: convert_unfold units_of_simps length_units_def)
qed

theorem convert_linear_witness:
  "units_of ''weight'' = Some weight_units \<and> ''weight'' \<noteq> ''temperature''
   \<and> map_of weight_units ''kg'' \<noteq> None \<and> map_of weight_units ''g'' \<noteq> None
   \<and> convert ''weight'' 2 ''kg'' ''g'' = Inr (Some 2000)
   \<and> convert ''weight'' 2 ''kg'' ''stone'' = Inr None
   \<and> units_of ''speed'' = None \<and> convert ''speed'' 2 ''kg'' ''g'' = Inr None"
proof -
  have u: "units_of ''weight'' = Some weight_units \<and> ''weight'' \<noteq> ''temperature''"
    by (simp add: units_of_simps)
  have k: "map_of weight_units ''kg'' \<noteq> None \<and> map_of weight_units ''g'' \<noteq> None"
    by (simp add: weight_units_def)
  have s: "map_of weight_units ''stone'' = None"
    by (simp add: weight_units_def)
  have n: "units_of ''speed'' = None"
    by (simp add: units_of_def UNITS_CONFIG_def)
  have fk: "factor_of ''weight'' ''kg'' = Some 1" and fg: "factor_of ''weight'' ''g'' = Some 0.001"
    by (simp_all add: factor_of_def units_of_simps weight_units_def)
  from convert_linear [of "''weight''" 2 "''kg''" "''g''"] u k
  obtain ff tf where e: "factor_of ''weight'' ''kg'' = Some ff"
      "factor_of ''weight'' ''g'' = Some tf"
      "convert ''weight'' 2 ''kg'' ''g'' = Inr (Some (2 * ff / tf))"
    by blast
  from e(1,2) fk fg have "ff = 1" and "tf = 0.001"
    by simp_all
  with e(3) have c1: "convert ''weight'' 2 ''kg'' ''g'' = Inr (Some 2000)"
    by simp
  from convert_linear [of "''weight''" 2 "''kg''" "''stone''"] u s
  have c2: "convert ''weight'' 2 ''kg'' ''stone'' = Inr None"
    by blast
  from convert_linear [of "''speed''" 2 "''kg''" "''g''"] n
  have c3: "convert ''speed'' 2 ''kg'' ''g'' = Inr None"
    by blast
  from u k c1 c2 n c3 show ?thesis by blast
qed



section \<open>Properties of the template engine\<close>

subsection \<open>Matching a block\<close>

lemma prepend_simps [simp]:
  "prepend html (Inl e) = Inl e"
  "prepend html (Inr out) = Inr (html @ out)"
  by (simp_all add: prepend_def)









lemma foldl_prepend_items:
  "foldl (\<lambda>result_html item. g item @ result_html) acc xs = concat (rev (map g xs)) @ acc"
  by (induction xs arbitrary: acc) simp_all











subsection \<open>Textual replacement\<close>

text \<open>
  Two facts about the scan of \<open>str.replace\<close>: text in which no occurrence of the
  pattern starts is copied, and the scan of a text splits at a point that no occurrence
  crosses.
\<close>

lemma replace_scan_keep:
  assumes "\<forall>j<length m. \<not> prefix old (drop j m @ post)"
  shows "replace_scan old new (m @ post) = m @ replace_scan old new post"
  using assms
proof (induction m)
  case Nil
  show ?case by simp
next
  case (Cons a m)
  have "0 < length (a # m)" by simp
  with Cons.prems have "\<not> prefix old (drop 0 (a # m) @ post)" by blast
  then have np: "\<not> prefix old (a # m @ post)" by simp
  have "\<forall>j<length m. \<not> prefix old (drop j m @ post)"
  proof (intro allI impI)
    fix j assume "j < length m"
    then have "Suc j < length (a # m)" by simp
    with Cons.prems have "\<not> prefix old (drop (Suc j) (a # m) @ post)" by blast
    then show "\<not> prefix old (drop j m @ post)" by simp
  qed
  with Cons.IH have "replace_scan old new (m @ post) = m @ replace_scan old new post" .
  with np show ?case by simp
qed

lemma replace_scan_split:
  assumes "\<forall>p. p \<noteq> [] \<and> suffix p pre \<and> prefix old (p @ rest) \<longrightarrow> prefix old p"
  shows "replace_scan old new (pre @ rest) = replace_scan old new pre @ replace_scan old new rest"
  using assms
proof (induction pre rule: length_induct)
  case (1 pre)
  show ?case
  proof (cases pre)
    case Nil
    then show ?thesis by simp
  next
    case (Cons c cs)
    show ?thesis
    proof (cases "old \<noteq> [] \<and> prefix old (pre @ rest)")
      case True
      have "pre \<noteq> [] \<and> suffix pre pre \<and> prefix old (pre @ rest)"
        using True Cons by simp
      with "1.prems" have p: "prefix old pre" by blast
      then have le: "length old \<le> length pre" by (rule prefix_length_le)
      let ?d = "drop (length old) pre"
      from True Cons have lt: "length ?d < length pre"
        by (cases old) simp_all
      have "\<forall>p. p \<noteq> [] \<and> suffix p ?d \<and> prefix old (p @ rest) \<longrightarrow> prefix old p"
      proof (intro allI impI)
        fix p assume a: "p \<noteq> [] \<and> suffix p ?d \<and> prefix old (p @ rest)"
        have "suffix ?d pre" by (rule suffix_drop)
        with a have "suffix p pre" using suffix_order.trans by blast
        with a "1.prems" show "prefix old p" by blast
      qed
      with lt "1.IH" have ih: "replace_scan old new (?d @ rest)
          = replace_scan old new ?d @ replace_scan old new rest"
        by blast
      from True Cons have "replace_scan old new (pre @ rest)
          = new @ replace_scan old new (drop (length old) (pre @ rest))"
        by simp
      also from le have "drop (length old) (pre @ rest) = ?d @ rest" by simp
      finally have l: "replace_scan old new (pre @ rest)
          = new @ replace_scan old new ?d @ replace_scan old new rest"
        using ih by simp
      from True p Cons have "replace_scan old new pre = new @ replace_scan old new ?d"
        by simp
      with l show ?thesis by simp
    next
      case False
      then have n1: "\<not> (old \<noteq> [] \<and> prefix old (c # cs @ rest))"
        using Cons by simp
      have n2: "\<not> (old \<noteq> [] \<and> prefix old (c # cs))"
      proof
        assume "old \<noteq> [] \<and> prefix old (c # cs)"
        then have "old \<noteq> [] \<and> prefix old ((c # cs) @ rest)"
          using prefix_prefix by blast
        with False Cons show False by simp
      qed
      have "\<forall>p. p \<noteq> [] \<and> suffix p cs \<and> prefix old (p @ rest) \<longrightarrow> prefix old p"
      proof (intro allI impI)
        fix p assume a: "p \<noteq> [] \<and> suffix p cs \<and> prefix old (p @ rest)"
        then have "suffix p pre" using Cons by (simp add: suffix_Cons)
        with a "1.prems" show "prefix old p" by blast
      qed
      moreover have "length cs < length pre" using Cons by simp
      ultimately have "replace_scan old new (cs @ rest)
          = replace_scan old new cs @ replace_scan old new rest"
        using "1.IH" by blast
      then have ih: "replace_scan old new (cs @ rest)
          = replace_scan old new cs @ replace_scan old new rest" .
      have "replace_scan old new (c # cs @ rest) = c # replace_scan old new (cs @ rest)"
        by (subst replace_scan.simps(2)) (simp only: n1 if_False)
      moreover have "replace_scan old new (c # cs) = c # replace_scan old new cs"
        by (subst replace_scan.simps(2)) (simp only: n2 if_False)
      ultimately show ?thesis
        using ih Cons by simp
    qed
  qed
qed

text \<open>
  Markers of different plain names do not overlap: a marker begins with two braces and has
  no other, and the name in it ends at the first space.
\<close>

lemma space_terminated_eq:
  assumes "CHR '' '' \<notin> set a" and "CHR '' '' \<notin> set b"
    and "prefix (a @ CHR '' '' # x) (b @ CHR '' '' # y)"
  shows "a = b"
  using assms
proof (induction a arbitrary: b)
  case Nil
  then show ?case by (cases b) auto
next
  case (Cons c a)
  show ?case
  proof (cases b)
    case Nil
    with Cons.prems show ?thesis by auto
  next
    case (Cons d b')
    with Cons.prems have "c = d" and "prefix (a @ CHR '' '' # x) (b' @ CHR '' '' # y)"
      and "CHR '' '' \<notin> set a" and "CHR '' '' \<notin> set b'"
      by auto
    with Cons.IH [of b'] Cons show ?thesis by simp
  qed
qed

lemma no_prefix_inside:
  assumes "x \<notin> set ys" and "i < length ys"
  shows "\<not> prefix (x # xs) (drop i ys @ post)"
proof
  assume p: "prefix (x # xs) (drop i ys @ post)"
  from assms(2) have "drop i ys = ys ! i # drop (Suc i) ys"
    by (simp add: Cons_nth_drop_Suc)
  with p have "x = ys ! i" by simp
  with assms show False by simp
qed

lemma marker_keep:
  assumes "plain_name a" and "plain_name b" and "a \<noteq> b"
  shows "\<forall>j<length (var_marker b). \<not> prefix (var_marker a) (drop j (var_marker b) @ post)"
proof (intro allI impI)
  fix j assume j: "j < length (var_marker b)"
  show "\<not> prefix (var_marker a) (drop j (var_marker b) @ post)"
  proof (cases j)
    case 0
    show ?thesis
    proof
      assume "prefix (var_marker a) (drop j (var_marker b) @ post)"
      with 0 have "prefix (a @ CHR '' '' # ''}}'') (b @ CHR '' '' # (''}}'' @ post))"
        by (simp add: var_marker_def)
      moreover from assms(1,2) have "CHR '' '' \<notin> set a" and "CHR '' '' \<notin> set b"
        by (auto simp: plain_name_def)
      ultimately have "a = b" using space_terminated_eq by blast
      with assms(3) show False by simp
    qed
  next
    case (Suc i)
    show ?thesis
    proof (cases i)
      case 0
      with Suc show ?thesis by (simp add: var_marker_def)
    next
      case (Suc i')
      let ?ys = "CHR '' '' # b @ '' }}''"
      from assms(2) have n: "CHR ''{'' \<notin> set ?ys"
        by (auto simp: plain_name_def)
      from j \<open>j = Suc i\<close> Suc have l: "i' < length ?ys"
        by (simp add: var_marker_def)
      have "\<not> prefix (CHR ''{'' # CHR ''{'' # CHR '' '' # a @ '' }}'') (drop i' ?ys @ post)"
        using n l by (rule no_prefix_inside)
      moreover have "drop j (var_marker b) = drop i' ?ys"
        using \<open>j = Suc i\<close> Suc by (simp add: var_marker_def)
      moreover have "var_marker a = CHR ''{'' # CHR ''{'' # CHR '' '' # a @ '' }}''"
        by (simp add: var_marker_def)
      ultimately show ?thesis by simp
    qed
  qed
qed

lemma marker_no_straddle:
  assumes "plain_name a" and "p \<noteq> []" and "prefix (var_marker a) (p @ var_marker b @ post)"
  shows "prefix (var_marker a) p"
proof -
  from assms(3) consider "prefix (var_marker a) p"
    | us where "var_marker a = p @ us" "prefix us (var_marker b @ post)"
    by (auto simp: prefix_append)
  then show ?thesis
  proof cases
    case 1
    then show ?thesis .
  next
    case 2
    show ?thesis
    proof (cases us)
      case Nil
      with 2 show ?thesis by simp
    next
      case (Cons u us')
      with 2(2) have u: "u = CHR ''{''"
        by (simp add: var_marker_def)
      from assms(2) obtain q ps where p: "p = q # ps" by (cases p) auto
      from 2(1) p Cons u
      have e: "ps @ CHR ''{'' # us' = CHR ''{'' # CHR '' '' # a @ '' }}''"
        by (auto simp: var_marker_def)
      show ?thesis
      proof (cases ps)
        case Nil
        with e have "us' = CHR '' '' # a @ '' }}''" by simp
        with 2(2) Cons u show ?thesis by (simp add: var_marker_def)
      next
        case (Cons r ps')
        with e have "ps' @ CHR ''{'' # us' = CHR '' '' # a @ '' }}''" by simp
        moreover have "CHR ''{'' \<in> set (ps' @ CHR ''{'' # us')" by simp
        ultimately have "CHR ''{'' \<in> set (CHR '' '' # a @ '' }}'')" by simp
        with assms(1) show ?thesis by (auto simp: plain_name_def)
      qed
    qed
  qed
qed

lemma marker_barrier:
  assumes "plain_name a" and "plain_name b" and "a \<noteq> b"
  shows "replace_scan (var_marker a) new (pre @ var_marker b @ post)
           = replace_scan (var_marker a) new pre @ var_marker b
               @ replace_scan (var_marker a) new post"
proof -
  have "replace_scan (var_marker a) new (pre @ (var_marker b @ post))
      = replace_scan (var_marker a) new pre @ replace_scan (var_marker a) new (var_marker b @ post)"
    by (rule replace_scan_split) (use marker_no_straddle [OF assms(1)] in blast)
  also have "replace_scan (var_marker a) new (var_marker b @ post)
      = var_marker b @ replace_scan (var_marker a) new post"
    by (rule replace_scan_keep) (rule marker_keep [OF assms])
  finally show ?thesis by simp
qed


lemma item_marker_var: "item_marker key = var_marker (''item.'' @ key)"
  by (simp add: item_marker_def var_marker_def)

lemma word_plain: "\<forall>c\<in>set k. is_word_char c \<Longrightarrow> plain_name k"
  by (auto simp: plain_name_def is_word_char_def)

lemma plain_item: "plain_name k \<Longrightarrow> plain_name (''item.'' @ k)"
  by (simp add: plain_name_def)

lemma py_replace_marker: "py_replace (var_marker a) new s = replace_scan (var_marker a) new s"
  by (simp add: py_replace_def var_marker_def)

lemma py_replace_barrier:
  assumes "plain_name a" and "plain_name b" and "a \<noteq> b"
  shows "py_replace (var_marker a) new (pre @ var_marker b @ post)
           = py_replace (var_marker a) new pre @ var_marker b
               @ py_replace (var_marker a) new post"
  using marker_barrier [OF assms] by (simp add: py_replace_marker)

lemma py_replace_occurrence:
  assumes "CHR ''{'' \<notin> set pre"
  shows "py_replace (var_marker k) new (pre @ var_marker k @ post)
           = pre @ new @ py_replace (var_marker k) new post"
proof -
  have m: "var_marker k = CHR ''{'' # CHR ''{'' # CHR '' '' # k @ '' }}''"
    by (simp add: var_marker_def)
  have "\<forall>j<length pre. \<not> prefix (var_marker k) (drop j pre @ (var_marker k @ post))"
  proof (intro allI impI)
    fix j assume "j < length pre"
    with assms show "\<not> prefix (var_marker k) (drop j pre @ (var_marker k @ post))"
      unfolding m by (rule no_prefix_inside)
  qed
  then have "replace_scan (var_marker k) new (pre @ (var_marker k @ post))
      = pre @ replace_scan (var_marker k) new (var_marker k @ post)"
    by (rule replace_scan_keep)
  moreover have "replace_scan (var_marker k) new (var_marker k @ post)
      = new @ replace_scan (var_marker k) new post"
    by (simp add: var_marker_def)
  ultimately show ?thesis by (simp add: py_replace_marker)
qed

lemma render_item_barrier:
  assumes "plain_name f" and "\<forall>(key, val)\<in>set item. plain_name key \<and> key \<noteq> f"
  shows "render_item py (pre @ item_marker f @ post) item
           = render_item py pre item @ item_marker f @ render_item py post item"
  using assms(2)
proof (induction item arbitrary: pre post)
  case Nil
  show ?case by (simp add: render_item_def)
next
  case (Cons kv item)
  obtain key val where kv: "kv = (key, val)" by (cases kv)
  with Cons.prems have k: "plain_name key" "key \<noteq> f"
    and r: "\<forall>(key, val)\<in>set item. plain_name key \<and> key \<noteq> f"
    by auto
  have step: "render_item py body (kv # item)
      = render_item py (py_replace (item_marker key) (py_str py val) body) item" for body
    by (simp add: render_item_def kv)
  have pk: "plain_name (''item.'' @ key)" using k(1) by (rule plain_item)
  have pf: "plain_name (''item.'' @ f)" using assms(1) by (rule plain_item)
  have ne: "''item.'' @ key \<noteq> ''item.'' @ f" using k(2) by simp
  have "py_replace (item_marker key) (py_str py val) (pre @ item_marker f @ post)
      = py_replace (item_marker key) (py_str py val) pre @ item_marker f
          @ py_replace (item_marker key) (py_str py val) post"
    unfolding item_marker_var using pk pf ne by (rule py_replace_barrier)
  with Cons.IH [OF r] show ?case by (simp add: step)
qed

text \<open>
  C10: for field names made of word characters, a marker that names a field none of the
  items has is left verbatim in every item's rendering: the rendering of a body around
  such a marker is the rendering of the text before it, the marker itself, and the
  rendering of the text after it. The loop over a non-empty sequence returns the
  concatenation of these renderings and raises nothing.
\<close>

theorem absent_field_marker_verbatim:
  assumes "\<forall>c\<in>set f. is_word_char c"
    and "\<forall>item\<in>set items. \<forall>(key, val)\<in>set item. key \<noteq> f \<and> (\<forall>c\<in>set key. is_word_char c)"
  shows "(\<forall>item\<in>set items.
            render_item py (pre @ item_marker f @ post) item
              = render_item py pre item @ item_marker f @ render_item py post item)
       \<and> (map_of ctx k = Some (PList items) \<and> items \<noteq> [] \<longrightarrow>
            loop_replacer py ctx k (pre @ item_marker f @ post) E
              = Inr (concat (rev (map (\<lambda>item. render_item py pre item @ item_marker f
                                          @ render_item py post item) items))))"
proof -
  have a: "render_item py (pre @ item_marker f @ post) item
              = render_item py pre item @ item_marker f @ render_item py post item"
    if "item \<in> set items" for item
  proof (rule render_item_barrier)
    show "plain_name f" using assms(1) by (rule word_plain)
    show "\<forall>(key, val)\<in>set item. plain_name key \<and> key \<noteq> f"
      using assms(2) that by (fastforce intro: word_plain)
  qed
  then have m: "map (render_item py (pre @ item_marker f @ post)) items
      = map (\<lambda>item. render_item py pre item @ item_marker f @ render_item py post item) items"
    by simp
  show ?thesis
  proof (intro conjI ballI impI)
    fix item assume "item \<in> set items"
    then show "render_item py (pre @ item_marker f @ post) item
              = render_item py pre item @ item_marker f @ render_item py post item"
      by (rule a)
  next
    assume "map_of ctx k = Some (PList items) \<and> items \<noteq> []"
    then have "loop_replacer py ctx k (pre @ item_marker f @ post) E
        = Inr (concat (rev (map (render_item py (pre @ item_marker f @ post)) items)))"
      by (simp add: loop_replacer_def foldl_prepend_items)
    then show "loop_replacer py ctx k (pre @ item_marker f @ post) E
              = Inr (concat (rev (map (\<lambda>item. render_item py pre item @ item_marker f
                                          @ render_item py post item) items)))"
      unfolding m .
  qed
qed

theorem absent_field_marker_verbatim_witness:
  "list_all is_word_char ''y''
   \<and> list_all (list_all (\<lambda>(key, val). key \<noteq> ''y'' \<and> list_all is_word_char key))
         [[(''x'', PInt 1)], [(''x'', PInt 2)]]
   \<and> loop_replacer sample_builtins [(''h'', PList [[(''x'', PInt 1)], [(''x'', PInt 2)]])] ''h''
        ''[{{ item.y }}:{{ item.x }}]'' ''none''
       = Inr ''[{{ item.y }}:2][{{ item.y }}:1]''"
proof -
  have h1: "\<forall>c\<in>set ''y''. is_word_char c"
    by (simp add: is_word_char_def)
  have h2: "\<forall>item\<in>set [[(''x'', PInt 1)], [(''x'', PInt 2)]].
         \<forall>(key, val)\<in>set item. key \<noteq> ''y'' \<and> (\<forall>c\<in>set key. is_word_char c)"
    by (simp add: is_word_char_def)
  have b: "''['' @ item_marker ''y'' @ '':{{ item.x }}]'' = ''[{{ item.y }}:{{ item.x }}]''"
    by (simp add: item_marker_def)
  have r: "render_item sample_builtins ''['' item = ''[''" for item
    by (induction item) (auto simp: render_item_def item_marker_def py_replace_def)
  have s: "render_item sample_builtins '':{{ item.x }}]'' [(''x'', PInt 1)] = '':1]''"
    "render_item sample_builtins '':{{ item.x }}]'' [(''x'', PInt 2)] = '':2]''"
    by (simp_all add: render_item_def item_marker_def py_replace_def str_int_def
        str_nat.simps digit_char_def)
  from absent_field_marker_verbatim [OF h1 h2, of sample_builtins "''[''" "'':{{ item.x }}]''"
      "[(''h'', PList [[(''x'', PInt 1)], [(''x'', PInt 2)]])]" "''h''" "''none''"]
  have "loop_replacer sample_builtins [(''h'', PList [[(''x'', PInt 1)], [(''x'', PInt 2)]])] ''h''
        (''['' @ item_marker ''y'' @ '':{{ item.x }}]'') ''none''
       = Inr (concat (rev (map (\<lambda>item. render_item sample_builtins ''['' item @ item_marker ''y''
                @ render_item sample_builtins '':{{ item.x }}]'' item)
                   [[(''x'', PInt 1)], [(''x'', PInt 2)]])))"
    by simp
  then have "loop_replacer sample_builtins [(''h'', PList [[(''x'', PInt 1)], [(''x'', PInt 2)]])]
        ''h'' ''[{{ item.y }}:{{ item.x }}]'' ''none''
       = Inr ''[{{ item.y }}:2][{{ item.y }}:1]''"
    unfolding b by (simp add: r s item_marker_def)
  moreover have "list_all is_word_char ''y''"
    and "list_all (list_all (\<lambda>(key, val). key \<noteq> ''y'' \<and> list_all is_word_char key))
         [[(''x'', PInt 1)], [(''x'', PInt 2)]]"
    by (simp_all add: is_word_char_def)
  ultimately show ?thesis by blast
qed

lemma substitute_vars_Cons:
  "substitute_vars py ((key, val) # ctx) t =
     substitute_vars py ctx
       (case val of
          PScalar v \<Rightarrow> py_replace (var_marker key) (py_str py v) t
        | PList xs \<Rightarrow> t)"
proof (cases val)
  case (PScalar v)
  then show ?thesis by (cases v) (simp_all add: substitute_vars_def)
next
  case (PList xs)
  then show ?thesis by (simp add: substitute_vars_def)
qed

lemma substitute_vars_barrier:
  assumes "plain_name k"
    and "\<forall>(key, val)\<in>set ctx. plain_name key \<and> (key = k \<longrightarrow> (\<exists>xs. val = PList xs))"
  shows "substitute_vars py ctx (pre @ var_marker k @ post)
           = substitute_vars py ctx pre @ var_marker k @ substitute_vars py ctx post"
  using assms(2)
proof (induction ctx arbitrary: pre post)
  case Nil
  show ?case by (simp add: substitute_vars_def)
next
  case (Cons kv ctx)
  obtain key val where kv: "kv = (key, val)" by (cases kv)
  with Cons.prems have pk: "plain_name key" and kl: "key = k \<longrightarrow> (\<exists>xs. val = PList xs)"
    and r: "\<forall>(key, val)\<in>set ctx. plain_name key \<and> (key = k \<longrightarrow> (\<exists>xs. val = PList xs))"
    by auto
  show ?case
  proof (cases val)
    case (PList xs)
    with Cons.IH [OF r] kv show ?thesis by (simp add: substitute_vars_Cons)
  next
    case (PScalar v)
    with kl have ne: "key \<noteq> k" by auto
    have "py_replace (var_marker key) (py_str py v) (pre @ var_marker k @ post)
        = py_replace (var_marker key) (py_str py v) pre @ var_marker k
            @ py_replace (var_marker key) (py_str py v) post"
      using pk assms(1) ne by (rule py_replace_barrier)
    with Cons.IH [OF r] kv PScalar show ?thesis by (simp add: substitute_vars_Cons)
  qed
qed

text \<open>
  C2, as the code has it: the third stage takes the keys of the context in order; for a
  key whose value is a string, an integer, a float or a boolean it replaces the
  occurrences of the key's marker in the text so far by the value's string form
  (\<open>True\<close> or \<open>False\<close> for a boolean), an occurrence after brace-free text being
  replaced and the scan going on behind it; for a key whose value is a sequence it
  changes nothing. With keys made of word characters, the marker of a key that is absent
  or bound to a sequence stays verbatim in the output.
\<close>

theorem scalar_substitution:
  "substitute_vars py [] t = t
   \<and> (\<forall>v. substitute_vars py ((k, PScalar v) # ctx) t
          = substitute_vars py ctx (py_replace (var_marker k) (py_str py v) t))
   \<and> (\<forall>xs. substitute_vars py ((k, PList xs) # ctx) t = substitute_vars py ctx t)
   \<and> (CHR ''{'' \<notin> set pre \<longrightarrow>
        py_replace (var_marker k) s (pre @ var_marker k @ post)
          = pre @ s @ py_replace (var_marker k) s post)
   \<and> ((\<forall>c\<in>set k. is_word_char c)
        \<and> (\<forall>(key, val)\<in>set ctx. (\<forall>c\<in>set key. is_word_char c)
              \<and> (key = k \<longrightarrow> (\<exists>xs. val = PList xs))) \<longrightarrow>
        substitute_vars py ctx (pre @ var_marker k @ post)
          = substitute_vars py ctx pre @ var_marker k @ substitute_vars py ctx post)
   \<and> py_str py (PBool True) = ''True'' \<and> py_str py (PBool False) = ''False''
   \<and> substitute_vars py [(''flag'', PScalar (PBool True))] ''{{ flag }}'' = ''True''"
proof (intro conjI allI impI)
  show "substitute_vars py [] t = t"
    by (simp add: substitute_vars_def)
  show "substitute_vars py ((k, PScalar v) # ctx) t
          = substitute_vars py ctx (py_replace (var_marker k) (py_str py v) t)" for v
    by (simp add: substitute_vars_Cons)
  show "substitute_vars py ((k, PList xs) # ctx) t = substitute_vars py ctx t" for xs
    by (simp add: substitute_vars_Cons)
  show "py_replace (var_marker k) s (pre @ var_marker k @ post)
          = pre @ s @ py_replace (var_marker k) s post" if "CHR ''{'' \<notin> set pre"
    using that by (rule py_replace_occurrence)
  show "substitute_vars py ctx (pre @ var_marker k @ post)
          = substitute_vars py ctx pre @ var_marker k @ substitute_vars py ctx post"
    if a: "(\<forall>c\<in>set k. is_word_char c)
        \<and> (\<forall>(key, val)\<in>set ctx. (\<forall>c\<in>set key. is_word_char c)
              \<and> (key = k \<longrightarrow> (\<exists>xs. val = PList xs)))"
  proof (rule substitute_vars_barrier)
    show "plain_name k" using a by (blast intro: word_plain)
    show "\<forall>(key, val)\<in>set ctx. plain_name key \<and> (key = k \<longrightarrow> (\<exists>xs. val = PList xs))"
      using a by (fastforce intro: word_plain)
  qed
  show "py_str py (PBool True) = ''True''" and "py_str py (PBool False) = ''False''"
    by simp_all
  show "substitute_vars py [(''flag'', PScalar (PBool True))] ''{{ flag }}'' = ''True''"
    by (simp add: substitute_vars_def var_marker_def py_replace_def)
qed

theorem scalar_substitution_witness:
  "CHR ''{'' \<notin> set ''n='' \<and> list_all is_word_char ''h''
   \<and> list_all (\<lambda>(key, val). list_all is_word_char key
                   \<and> (key = ''h'' \<longrightarrow> (\<exists>xs. val = PList xs)))
         [(''a'', PScalar (PInt 7)), (''h'', PList [])]
   \<and> py_replace (var_marker ''a'') ''7'' ''n={{ a }};'' = ''n=7;''
   \<and> substitute_vars sample_builtins [(''a'', PScalar (PInt 7)), (''h'', PList [])]
        ''{{ a }}-{{ h }}-{{ a }}'' = ''7-{{ h }}-7''"
proof -
  let ?ctx = "[(''a'', PScalar (PInt 7)), (''h'', PList [])]"
  have h1: "CHR ''{'' \<notin> set ''n=''" by simp
  have h2: "\<forall>c\<in>set ''h''. is_word_char c"
    by (simp add: is_word_char_def)
  have h3: "\<forall>(key, val)\<in>set ?ctx.
         (\<forall>c\<in>set key. is_word_char c) \<and> (key = ''h'' \<longrightarrow> (\<exists>xs. val = PList xs))"
    by (simp add: is_word_char_def)
  have t1: "py_replace (var_marker ''a'') ''7'' '';'' = '';''"
    by (simp add: py_replace_def var_marker_def)
  have t2: "substitute_vars sample_builtins ?ctx ''{{ a }}-'' = ''7-''"
    "substitute_vars sample_builtins ?ctx ''-{{ a }}'' = ''-7''"
    by (simp_all add: substitute_vars_def var_marker_def py_replace_def str_int_def
        str_nat.simps digit_char_def)
  have e1: "''n='' @ var_marker ''a'' @ '';'' = ''n={{ a }};''"
    and e2: "''{{ a }}-'' @ var_marker ''h'' @ ''-{{ a }}'' = ''{{ a }}-{{ h }}-{{ a }}''"
    by (simp_all add: var_marker_def)
  from scalar_substitution [of sample_builtins "'';''" "''a''" "[]" "''n=''" "''7''" "'';''"] h1
  have "py_replace (var_marker ''a'') ''7'' (''n='' @ var_marker ''a'' @ '';'')
      = ''n='' @ ''7'' @ py_replace (var_marker ''a'') ''7'' '';''"
    by blast
  then have c1: "py_replace (var_marker ''a'') ''7'' ''n={{ a }};'' = ''n=7;''"
    unfolding e1 t1 by simp
  from scalar_substitution [of sample_builtins "[]" "''h''" ?ctx "''{{ a }}-''" "[]"
      "''-{{ a }}''"] h2 h3
  have "substitute_vars sample_builtins ?ctx (''{{ a }}-'' @ var_marker ''h'' @ ''-{{ a }}'')
      = substitute_vars sample_builtins ?ctx ''{{ a }}-'' @ var_marker ''h''
          @ substitute_vars sample_builtins ?ctx ''-{{ a }}''"
    by blast
  then have c2: "substitute_vars sample_builtins ?ctx ''{{ a }}-{{ h }}-{{ a }}''
      = ''7-{{ h }}-7''"
    unfolding e2 t2 by (simp add: var_marker_def)
  have w: "list_all is_word_char ''h''"
    "list_all (\<lambda>(key, val). list_all is_word_char key
                   \<and> (key = ''h'' \<longrightarrow> (\<exists>xs. val = PList xs)))
         [(''a'', PScalar (PInt 7)), (''h'', PList [])]"
    by (simp_all add: is_word_char_def)
  from h1 w c1 c2 show ?thesis by blast
qed

text \<open>
  C2 as stated fails for a boolean: \<open>isinstance(True, (str, int, float))\<close> holds, so the
  marker of a boolean key is replaced.
\<close>

theorem boolean_substituted_counterexample:
  "substitute_vars sample_builtins [(''flag'', PScalar (PBool True))] ''{{ flag }}'' = ''True''
   \<and> substitute_vars sample_builtins [(''flag'', PScalar (PBool True))] ''{{ flag }}''
       \<noteq> ''{{ flag }}''"
  by (simp add: substitute_vars_def var_marker_def py_replace_def)

text \<open>
  C9, as the code has it: when the template file does not exist, \<open>render\<close> returns the
  same fixed fragment for every context and does not raise.
\<close>

theorem render_missing_template:
  "render py Missing ctx = Inr ''<h1>Error: Template file not found.</h1>''"
  by (simp add: render_def)

text \<open>
  C9 as stated fails for a template path that exists and cannot be read: the existence
  test passes and \<open>open\<close> raises.
\<close>

theorem render_unreadable_counterexample:
  "render sample_builtins Unreadable [] = Inl OSError
   \<and> render sample_builtins Unreadable [] \<noteq> Inr ''<h1>Error: Template file not found.</h1>''"
  by (simp add: render_def)

section \<open>Properties of the request handler\<close>






lemma unknown_request_convert:
  assumes "unknown_request category unit_from unit_to"
  shows "convert category v unit_from unit_to = Inr None"
  using assms
  by (auto simp: unknown_request_def convert_unfold split: option.splits)

text \<open>
  C8, as the code has it: for a conversion request whose category is unknown, or whose
  category is not temperature and one of whose unit codes is missing from the category,
  \<open>convert\<close> returns the not-found signal for every value, without raising, and the
  handler leaves the history unchanged and renders the page with a blank result.
\<close>

theorem unknown_request_noop:
  assumes "unknown_request (form_get data ''category'' ''length'')
             (form_get data ''unit_from'' []) (form_get data ''unit_to'' [])"
    and "form_get data ''action'' ''convert'' = ''convert''"
  shows "(\<forall>v. convert (form_get data ''category'' ''length'') v
              (form_get data ''unit_from'' []) (form_get data ''unit_to'' []) = Inr None)
       \<and> do_POST py file data h =
           (h, render py file
                 (post_context (form_get data ''category'' ''length'')
                    (form_get data ''amount'' ''0'') h [] []
                    (form_get data ''unit_from'' []) (form_get data ''unit_to'' [])))"
proof -
  note c = unknown_request_convert [OF assms(1)]
  from c assms(2) show ?thesis
    by (simp add: do_POST_def Let_def split: option.splits)
qed

theorem unknown_request_noop_witness:
  "unknown_request ''length'' ''km'' ''parsec''
   \<and> unknown_request ''speed'' ''km'' ''m''
   \<and> convert ''length'' 1 ''km'' ''parsec'' = Inr None
   \<and> do_POST sample_builtins Missing
        [(''category'', ''length''), (''amount'', ''1''), (''unit_from'', ''km''),
         (''unit_to'', ''parsec'')] [[(''n'', PInt 1)]]
       = ([[(''n'', PInt 1)]], Inr ''<h1>Error: Template file not found.</h1>'')"
proof -
  let ?data = "[(''category'', ''length''), (''amount'', ''1''), (''unit_from'', ''km''),
         (''unit_to'', ''parsec'')]"
  have g: "form_get ?data ''category'' ''length'' = ''length''"
    "form_get ?data ''unit_from'' [] = ''km''" "form_get ?data ''unit_to'' [] = ''parsec''"
    "form_get ?data ''action'' ''convert'' = ''convert''"
    by (simp_all add: form_get_def)
  have u: "unknown_request ''length'' ''km'' ''parsec''"
    by (simp add: unknown_request_def units_of_simps length_units_def)
  have u2: "unknown_request ''speed'' ''km'' ''m''"
    by (simp add: unknown_request_def units_of_def UNITS_CONFIG_def)
  from unknown_request_noop [of ?data sample_builtins Missing "[[(''n'', PInt 1)]]"] u g
  have "(\<forall>v. convert ''length'' v ''km'' ''parsec'' = Inr None)
     \<and> do_POST sample_builtins Missing ?data [[(''n'', PInt 1)]]
       = ([[(''n'', PInt 1)]], Inr ''<h1>Error: Template file not found.</h1>'')"
    by (simp add: render_def)
  with u u2 show ?thesis by blast
qed

text \<open>
  C8 as stated fails for temperature: the unit code \<open>x\<close> is not a temperature unit, and
  \<open>convert\<close> falls back to Celsius and returns a number.
\<close>

theorem temperature_unknown_unit_counterexample:
  "map_of temperature_units ''x'' = None
   \<and> convert ''temperature'' 5 ''x'' ''c'' = Inr (Some 5)
   \<and> convert ''temperature'' 5 ''x'' ''c'' \<noteq> Inr None"
  by (simp add: temperature_units_def convert_unfold units_of_simps convert_temp_def)

text \<open>
  A temperature request with a unit code outside \<open>c\<close>, \<open>f\<close> and \<open>k\<close> is not a
  successful conversion in the sense above: \<open>convert\<close> falls back to Celsius and returns
  a number, the lookup of the unit's display name then raises \<open>KeyError\<close>, which
  \<open>except ValueError\<close> does not catch, and the history is left as it was.
\<close>

lemma do_POST_temperature_unknown_unit:
  "do_POST sample_builtins Missing
     [(''category'', ''temperature''), (''amount'', ''1''), (''unit_from'', ''x''),
      (''unit_to'', ''c'')] h
   = (h, Inl KeyError)"
proof -
  have c: "convert ''temperature'' 1 ''x'' ''c'' = Inr (Some 1)"
    by (simp add: convert_unfold units_of_simps convert_temp_def)
  have n: "unit_display_name ''temperature'' ''x'' = Inl KeyError"
    by (simp add: unit_display_name_def UNITS_CONFIG_def temperature_units_def)
  show ?thesis
    by (simp add: do_POST_def form_get_def sample_builtins_def c n)
qed

end
